theory Spec2Isabelle
  imports Main "HOL-Library.Word"
begin

section \<open>Data model of \<open>src/App.tsx\<close>\<close>

text \<open>
  The \<open>NostrEvent\<close> interface (lines 19--27). The field \<open>id\<close> is called
  \<open>event_id\<close> here, since \<open>id\<close> is the identity function of HOL.
\<close>

record NostrEvent =
  event_id :: string
  pubkey :: string
  created_at :: int
  kind :: int
  tags :: "string list list"
  content :: string
  sig :: string

text \<open>
  A value caught by a \<open>catch\<close> clause: an instance of \<open>Error\<close> with its message,
  or anything else (line 139 tells the two apart with \<open>instanceof\<close>).
\<close>

datatype thrown = Error string | NonError

text \<open>
  What \<open>nip19.decode\<close> returns: a \<open>type\<close> tag and a \<open>data\<close> payload, which is a hex
  string for a public key and a \<open>Uint8Array\<close> for a secret key. The casts
  \<open>as string\<close> and \<open>as Uint8Array\<close> of lines 74 and 99 do nothing at run time, so
  the payload is passed on as it is.
\<close>

datatype key_data = KeyHex string | KeyBytes "8 word list"

record Decoded =
  dtype :: string
  ddata :: key_data

text \<open>The filter object given to \<open>pool.querySync\<close> (lines 78--80).\<close>

record Filter =
  kinds :: "int list"
  authors :: "key_data list"
  limit :: int

text \<open>The \<open>useState\<close> cells of the component (lines 30--37).\<close>

record AppState =
  npub :: string
  relays :: "string list"
  events :: "NostrEvent list"
  isModalOpen :: bool
  nsec :: string
  isLoading :: bool
  error :: "string option"
  status :: string

text \<open>
  The functions of \<open>nostr-tools\<close> and the clock that \<open>handleCloneEvents\<close> calls.
  They are not part of the repository and are parameters of the model. Each may
  throw or reject (\<open>Inl\<close>).
  \<^item> \<open>publish L relay ev\<close> is the call \<open>pool.publish([relay], ev)\<close> of the
    \<open>SimplePool\<close> that lines 15--16 import: it throws at once (\<open>Inl\<close>), or it
    returns an array of promises (\<open>Inr\<close>), given here by how each of them settles
    later, fulfilled when the relay has accepted the event and rejected when it has
    not. The array itself is not a promise.
  \<^item> \<open>date_now L k\<close> is the value of the \<open>k\<close>-th call of \<open>Date.now()\<close> of one
    invocation, counted from 0.
\<close>

record Lib =
  nip19_decode :: "string \<Rightarrow> thrown + Decoded"
  querySync :: "string list \<Rightarrow> Filter \<Rightarrow> thrown + NostrEvent list"
  getPublicKey :: "key_data \<Rightarrow> thrown + string"
  finalizeEvent :: "NostrEvent \<Rightarrow> key_data \<Rightarrow> thrown + NostrEvent"
  publish :: "string \<Rightarrow> NostrEvent \<Rightarrow> thrown + (thrown + string) list"
  date_now :: "nat \<Rightarrow> int"

text \<open>
  What one invocation does to the outside, in the order it does it: the relay
  query, the derivation of the public key, each signing call with its template,
  each call of \<open>pool.publish\<close> with its relay, the pacing delay in milliseconds,
  and the two console calls (\<open>console.warn\<close> with the event number and what the
  inner \<open>catch\<close> caught, \<open>console.error\<close> with what the outer one caught). The
  inner \<open>catch\<close> gets a value that \<open>pool.publish\<close> threw, or the
  \<open>AggregateError\<close> of \<open>Promise.any\<close> with the reasons it collected.
\<close>

datatype caught = Thrown thrown | AggregateError "thrown list"

datatype effect =
  Query "string list" Filter
  | DerivePub key_data
  | Sign NostrEvent key_data
  | Publish string NostrEvent
  | Delay nat
  | Warn nat caught
  | LogError thrown

record Run =
  ui :: AppState
  trace :: "effect list"

section \<open>Helpers of the JavaScript run time\<close>

text \<open>\<open>String.prototype.startsWith\<close>.\<close>

definition startsWith :: "string \<Rightarrow> string \<Rightarrow> bool" where
  "startsWith s p = (take (length p) s = p)"

text \<open>The decimal text of a number inside a template literal.\<close>

definition digit :: "nat \<Rightarrow> char" where
  "digit d = ''0123456789'' ! d"

function toString :: "nat \<Rightarrow> string" where
  "toString n = (if n < 10 then [digit n] else toString (n div 10) @ [digit (n mod 10)])"
  by pat_completeness auto
termination
  by (relation "measure (\<lambda>n. n)") auto

declare toString.simps [simp del]

text \<open>
  \<open>Promise.any\<close> over the settlements of its elements: fulfilled when one element
  is fulfilled, rejected with the reasons of all of them otherwise (also when there
  is no element). An element that is not a promise counts as fulfilled with
  itself. The source drops the value of the fulfilled promise.
\<close>

fun promise_any :: "(thrown + 'a) list \<Rightarrow> thrown list + unit" where
  "promise_any [] = Inl []"
| "promise_any (Inr v # ps) = Inr ()"
| "promise_any (Inl e # ps) = (case promise_any ps of Inl es \<Rightarrow> Inl (e # es) | Inr u \<Rightarrow> Inr u)"

section \<open>\<open>handleCloneEvents\<close> (lines 58--144)\<close>

definition setStatus :: "string \<Rightarrow> Run \<Rightarrow> Run" where
  "setStatus m r = r\<lparr>ui := (ui r)\<lparr>status := m\<rparr>\<rparr>"

definition emit :: "effect list \<Rightarrow> Run \<Rightarrow> Run" where
  "emit es r = r\<lparr>trace := trace r @ es\<rparr>"

text \<open>The template of lines 106--112, from the value \<open>now\<close> of \<open>Date.now()\<close>.\<close>

definition newEvent :: "string \<Rightarrow> int \<Rightarrow> NostrEvent \<Rightarrow> NostrEvent" where
  "newEvent newPubkey now event =
     event\<lparr>pubkey := newPubkey, created_at := now div 1000, event_id := [], sig := []\<rparr>"

text \<open>
  The \<open>map\<close> of lines 104--115, from index \<open>i\<close> on; \<open>n\<close> is
  \<open>fetchedEvents.length\<close>. A throw of \<open>finalizeEvent\<close> ends it.
\<close>

fun cloneAll ::
  "Lib \<Rightarrow> key_data \<Rightarrow> string \<Rightarrow> nat \<Rightarrow> nat \<Rightarrow> NostrEvent list \<Rightarrow> Run \<Rightarrow> (thrown + NostrEvent list) \<times> Run"
where
  "cloneAll L secretKey newPubkey n i [] r = (Inr [], r)"
| "cloneAll L secretKey newPubkey n i (event # rest) r =
     (let r1 = setStatus (''Cloning event '' @ toString (i + 1) @ ''/'' @ toString n @ ''...'') r;
          t = newEvent newPubkey (date_now L i) event;
          r2 = emit [Sign t secretKey] r1
      in case finalizeEvent L t secretKey of
           Inl err \<Rightarrow> (Inl err, r2)
         | Inr c \<Rightarrow>
             (case cloneAll L secretKey newPubkey n (i + 1) rest r2 of
                (Inl err, r3) \<Rightarrow> (Inl err, r3)
              | (Inr cs, r3) \<Rightarrow> (Inr (c # cs), r3)))"

text \<open>
  The \<open>relays.map\<close> of lines 123--125 for the cloned event \<open>c\<close>: the arrays that
  the calls of \<open>pool.publish\<close> return, with the calls made. A call that throws
  ends the \<open>map\<close>; the relays after it are not tried.
\<close>

fun publishCalls ::
  "Lib \<Rightarrow> NostrEvent \<Rightarrow> string list \<Rightarrow> (thrown + (thrown + string) list list) \<times> effect list"
where
  "publishCalls L c [] = (Inr [], [])"
| "publishCalls L c (relay # rest) =
     (case publish L relay c of
        Inl err \<Rightarrow> (Inl err, [Publish relay c])
      | Inr ps \<Rightarrow>
          (case publishCalls L c rest of
             (Inl err, es) \<Rightarrow> (Inl err, Publish relay c # es)
           | (Inr arrays, es) \<Rightarrow> (Inr (ps # arrays), Publish relay c # es)))"

text \<open>
  The loop of lines 119--132, from index \<open>i\<close> on; \<open>n\<close> is \<open>clonedEvents.length\<close>.
  \<open>Promise.any\<close> gets the arrays that \<open>pool.publish\<close> returned, which are not
  promises, so each of them counts as fulfilled (\<open>map Inr\<close>); the promises inside
  the arrays are awaited by nobody. The delay of line 128 is inside the \<open>try\<close>,
  after the \<open>await\<close> of \<open>Promise.any\<close>.
\<close>

fun publishAll :: "Lib \<Rightarrow> string list \<Rightarrow> nat \<Rightarrow> nat \<Rightarrow> NostrEvent list \<Rightarrow> Run \<Rightarrow> Run" where
  "publishAll L rs n i [] r = r"
| "publishAll L rs n i (c # rest) r =
     (let r1 = setStatus (''Publishing event '' @ toString (i + 1) @ ''/'' @ toString n @ ''...'') r
      in case publishCalls L c rs of
           (Inl err, es) \<Rightarrow>
             publishAll L rs n (i + 1) rest (emit (es @ [Warn (i + 1) (Thrown err)]) r1)
         | (Inr arrays, es) \<Rightarrow>
             (case promise_any (map Inr arrays) of
                Inr u \<Rightarrow> publishAll L rs n (i + 1) rest (emit (es @ [Delay 50]) r1)
              | Inl errs \<Rightarrow>
                  publishAll L rs n (i + 1) rest
                    (emit (es @ [Warn (i + 1) (AggregateError errs)]) r1)))"

text \<open>Lines 89--136: what happens once the events are fetched.\<close>

definition cloneAndPublish :: "Lib \<Rightarrow> AppState \<Rightarrow> NostrEvent list \<Rightarrow> Run \<Rightarrow> (thrown + unit) \<times> Run" where
  "cloneAndPublish L s fetchedEvents r =
     (if nsec s = [] then (Inr (), r)
      else if \<not> startsWith (nsec s) ''nsec1'' then
        (Inl (Error ''Invalid nsec format. Must start with nsec1''), r)
      else case nip19_decode L (nsec s) of
        Inl err \<Rightarrow> (Inl err, r)
      | Inr decodedNsec \<Rightarrow>
          if dtype decodedNsec \<noteq> ''nsec'' then (Inl (Error ''Invalid nsec''), r)
          else
            (let secretKey = ddata decodedNsec;
                 r1 = emit [DerivePub secretKey] r
             in case getPublicKey L secretKey of
                  Inl err \<Rightarrow> (Inl err, r1)
                | Inr newPubkey \<Rightarrow>
                    (case cloneAll L secretKey newPubkey (length fetchedEvents) 0 fetchedEvents
                            (setStatus ''Cloning events...'' r1) of
                       (Inl err, r2) \<Rightarrow> (Inl err, r2)
                     | (Inr clonedEvents, r2) \<Rightarrow>
                         (let r3 = publishAll L (relays s) (length clonedEvents) 0 clonedEvents
                                     (setStatus ''Publishing events...'' r2);
                              r4 = r3\<lparr>ui := (ui r3)\<lparr>events := clonedEvents\<rparr>\<rparr>
                          in (Inr (), setStatus ''Complete!'' r4)))))"

text \<open>Lines 65--136: the body of the outer \<open>try\<close>.\<close>

definition tryBody :: "Lib \<Rightarrow> AppState \<Rightarrow> Run \<Rightarrow> (thrown + unit) \<times> Run" where
  "tryBody L s r =
     (if \<not> startsWith (npub s) ''npub1'' then
        (Inl (Error ''Invalid npub format. Must start with npub1''), r)
      else case nip19_decode L (npub s) of
        Inl err \<Rightarrow> (Inl err, r)
      | Inr decoded \<Rightarrow>
          if dtype decoded \<noteq> ''npub'' then (Inl (Error ''Invalid npub''), r)
          else
            (let pubkeyHex = ddata decoded;
                 f = \<lparr>kinds = [1], authors = [pubkeyHex], limit = 50\<rparr>;
                 r1 = emit [Query (relays s) f] (setStatus ''Fetching events...'' r)
             in case querySync L (relays s) f of
                  Inl err \<Rightarrow> (Inl err, r1)
                | Inr fetchedEvents \<Rightarrow>
                    if length fetchedEvents = 0 then
                      (Inl (Error ''No events found for this pubkey''), r1)
                    else cloneAndPublish L s fetchedEvents
                           (setStatus (''Found '' @ toString (length fetchedEvents) @ '' events to clone...'') r1)))"

text \<open>The message of line 139.\<close>

definition errorMessage :: "thrown \<Rightarrow> string" where
  "errorMessage t = (case t of Error m \<Rightarrow> m | NonError \<Rightarrow> ''Unknown error occurred'')"

text \<open>
  The whole handler: the two writes of lines 59--60, the \<open>try\<close>, the \<open>catch\<close> of
  lines 137--139 and the \<open>finally\<close> of lines 140--143. The inputs \<open>npub\<close>, \<open>nsec\<close>
  and \<open>relays\<close> are the ones of the render the handler was created in.
\<close>

definition handleCloneEvents :: "Lib \<Rightarrow> AppState \<Rightarrow> Run" where
  "handleCloneEvents L s =
     (let r0 = \<lparr>ui = s\<lparr>isLoading := True, error := None\<rparr>, trace = []\<rparr>;
          r2 = (case tryBody L s r0 of
                  (Inr u, r1) \<Rightarrow> r1
                | (Inl err, r1) \<Rightarrow>
                    (emit [LogError err] r1)\<lparr>ui := (ui r1)\<lparr>error := Some (errorMessage err)\<rparr>\<rparr>)
      in r2\<lparr>ui := (ui r2)\<lparr>isLoading := False, isModalOpen := False\<rparr>\<rparr>)"

section \<open>Vocabulary of the theorems\<close>

text \<open>
  The effects of one round of the publishing loop for the cloned event \<open>c\<close>,
  numbered \<open>k\<close> in the messages: the calls of \<open>pool.publish\<close>, then the delay
  when \<open>Promise.any\<close> is fulfilled, and the warning when it is rejected or when a
  call has thrown.
\<close>

definition publishRound :: "Lib \<Rightarrow> string list \<Rightarrow> nat \<Rightarrow> NostrEvent \<Rightarrow> effect list" where
  "publishRound L rs k c =
     (case publishCalls L c rs of
        (Inl err, es) \<Rightarrow> es @ [Warn k (Thrown err)]
      | (Inr arrays, es) \<Rightarrow>
          es @ (case promise_any (map Inr arrays) of
                  Inr u \<Rightarrow> [Delay 50]
                | Inl errs \<Rightarrow> [Warn k (AggregateError errs)]))"

definition isQuery :: "effect \<Rightarrow> bool" where
  "isQuery e = (case e of Query rs f \<Rightarrow> True | _ \<Rightarrow> False)"

definition isPublish :: "effect \<Rightarrow> bool" where
  "isPublish e = (case e of Publish relay c \<Rightarrow> True | _ \<Rightarrow> False)"

definition isDerivePub :: "effect \<Rightarrow> bool" where
  "isDerivePub e = (case e of DerivePub k \<Rightarrow> True | _ \<Rightarrow> False)"

definition isSign :: "effect \<Rightarrow> bool" where
  "isSign e = (case e of Sign t k \<Rightarrow> True | _ \<Rightarrow> False)"

section \<open>A small world to run the handler in\<close>

text \<open>
  Two notes of one author, a relay that rejects everything and a relay that
  accepts every event but the one with content \<open>first\<close> (\<open>pool.publish\<close> returns
  its array of one promise for both), a signer that fills in \<open>id\<close> and \<open>sig\<close> and
  keeps the rest, and a clock that advances by one second per call.
\<close>

definition note1 :: NostrEvent where
  "note1 = \<lparr>event_id = ''id1'', pubkey = ''a11ce'', created_at = 1600000000, kind = 1,
            tags = [[''t'', ''x'']], content = ''first'', sig = ''sig1''\<rparr>"

definition note2 :: NostrEvent where
  "note2 = \<lparr>event_id = ''id2'', pubkey = ''a11ce'', created_at = 1600000500, kind = 1,
            tags = [], content = ''second'', sig = ''sig2''\<rparr>"

definition oldClone :: NostrEvent where
  "oldClone = \<lparr>event_id = ''id0'', pubkey = ''b0b'', created_at = 1650000000, kind = 1,
               tags = [], content = ''earlier run'', sig = ''sig0''\<rparr>"

definition demoDecode :: "string \<Rightarrow> thrown + Decoded" where
  "demoDecode s =
     (if s = ''npub1alice'' then Inr \<lparr>dtype = ''npub'', ddata = KeyHex ''a11ce''\<rparr>
      else if s = ''npub1nobody'' then Inr \<lparr>dtype = ''npub'', ddata = KeyHex ''0000''\<rparr>
      else if s = ''nsec1bob'' then Inr \<lparr>dtype = ''nsec'', ddata = KeyBytes [1, 2, 3]\<rparr>
      else if s = ''npub1odd'' then Inr \<lparr>dtype = ''note'', ddata = KeyHex ''0dd''\<rparr>
      else if s = ''nsec1odd'' then Inr \<lparr>dtype = ''note'', ddata = KeyHex ''0dd''\<rparr>
      else Inl (Error ''Invalid checksum''))"

definition demoQuery :: "string list \<Rightarrow> Filter \<Rightarrow> thrown + NostrEvent list" where
  "demoQuery rs f = (if authors f = [KeyHex ''a11ce''] then Inr [note1, note2] else Inr [])"

definition demoSign :: "NostrEvent \<Rightarrow> key_data \<Rightarrow> thrown + NostrEvent" where
  "demoSign t k = Inr (t\<lparr>event_id := ''hash of '' @ content t, sig := ''signed''\<rparr>)"

definition demoPublish :: "string \<Rightarrow> NostrEvent \<Rightarrow> thrown + (thrown + string) list" where
  "demoPublish relay c =
     Inr [if relay = ''wss://good'' \<and> content c \<noteq> ''first'' then Inr ''ok''
          else Inl (Error ''rejected'')]"

definition demoLib :: Lib where
  "demoLib = \<lparr>nip19_decode = demoDecode, querySync = demoQuery,
              getPublicKey = (\<lambda>k. Inr ''b0b''), finalizeEvent = demoSign,
              publish = demoPublish,
              date_now = (\<lambda>k. 1700000000123 + 1000 * int k)\<rparr>"

definition demoState :: AppState where
  "demoState = \<lparr>npub = ''npub1alice'', relays = [''wss://bad'', ''wss://good''],
                events = [oldClone], isModalOpen = True, nsec = ''nsec1bob'',
                isLoading = False, error = None, status = []\<rparr>"

text \<open>The two cloned events of the run from \<open>demoState\<close>.\<close>

definition clone1 :: NostrEvent where
  "clone1 = \<lparr>event_id = ''hash of first'', pubkey = ''b0b'', created_at = 1700000000, kind = 1,
             tags = [[''t'', ''x'']], content = ''first'', sig = ''signed''\<rparr>"

definition clone2 :: NostrEvent where
  "clone2 = \<lparr>event_id = ''hash of second'', pubkey = ''b0b'', created_at = 1700000001, kind = 1,
             tags = [], content = ''second'', sig = ''signed''\<rparr>"

text \<open>Variations of \<open>demoState\<close>.\<close>

definition emptyAuthorState :: AppState where
  "emptyAuthorState = demoState\<lparr>npub := ''npub1nobody''\<rparr>"

definition noDestState :: AppState where
  "noDestState = demoState\<lparr>nsec := []\<rparr>"

definition badDestState :: AppState where
  "badDestState = demoState\<lparr>nsec := ''secret of bob''\<rparr>"

definition pastedSecretState :: AppState where
  "pastedSecretState = demoState\<lparr>npub := ''nsec1bob''\<rparr>"

definition oddSourceState :: AppState where
  "oddSourceState = demoState\<lparr>npub := ''npub1odd''\<rparr>"

section \<open>Lemmas about the loops\<close>

lemma ui_setStatus [simp]: "ui (setStatus m r) = (ui r)\<lparr>status := m\<rparr>"
  by (simp add: setStatus_def)

lemma trace_setStatus [simp]: "trace (setStatus m r) = trace r"
  by (simp add: setStatus_def)

lemma ui_emit [simp]: "ui (emit es r) = ui r"
  by (simp add: emit_def)

lemma trace_emit [simp]: "trace (emit es r) = trace r @ es"
  by (simp add: emit_def)

lemma promise_any_Inl_iff:
  "promise_any ps = Inl es \<longleftrightarrow> (\<forall>p\<in>set ps. isl p) \<and> es = map projl ps"
proof (induction ps arbitrary: es)
  case Nil
  show ?case by auto
next
  case (Cons p ps)
  show ?case
  proof (cases p)
    case (Inl e)
    show ?thesis
    proof (cases "promise_any ps")
      case (Inl es')
      then show ?thesis using \<open>p = Inl e\<close> Cons.IH [of es'] by auto
    next
      case (Inr u)
      then have "\<not> (\<forall>p\<in>set ps. isl p)" using Cons.IH [of "map projl ps"] by simp
      then show ?thesis using \<open>p = Inl e\<close> Inr by auto
    qed
  next
    case (Inr v)
    then show ?thesis by simp
  qed
qed

lemma promise_any_Inr_iff: "promise_any ps = Inr u \<longleftrightarrow> (\<exists>p\<in>set ps. \<not> isl p)"
proof (cases "promise_any ps")
  case (Inl es)
  then show ?thesis using promise_any_Inl_iff [of ps es] by simp
next
  case (Inr v)
  then show ?thesis using promise_any_Inl_iff [of ps] by (cases "\<forall>p\<in>set ps. isl p") auto
qed

lemma cloneAll_ui:
  "(ui (snd (cloneAll L sk pk n i es r)))\<lparr>status := m\<rparr> = (ui r)\<lparr>status := m\<rparr>"
proof (induction es arbitrary: i r)
  case Nil
  show ?case by simp
next
  case (Cons e es)
  show ?case
  proof (cases "finalizeEvent L (newEvent pk (date_now L i) e) sk")
    case (Inl err)
    then show ?thesis by (simp add: Let_def)
  next
    case (Inr c)
    let ?r2 = "emit [Sign (newEvent pk (date_now L i) e) sk]
          (setStatus (''Cloning event '' @ toString (Suc i) @ ''/'' @ toString n @ ''...'') r)"
    obtain res r3 where run: "cloneAll L sk pk n (Suc i) es ?r2 = (res, r3)"
      by (cases "cloneAll L sk pk n (Suc i) es ?r2")
    have "(ui r3)\<lparr>status := m\<rparr> = (ui ?r2)\<lparr>status := m\<rparr>"
      using Cons.IH [of "Suc i" ?r2] run by simp
    then show ?thesis using Inr run by (cases res) (simp_all add: Let_def)
  qed
qed

lemma cloneAll_trace_any:
  "\<exists>k. trace (snd (cloneAll L sk pk n i es r)) =
     trace r @ map (\<lambda>(j, e). Sign (newEvent pk (date_now L j) e) sk) (take k (enumerate i es))"
proof (induction es arbitrary: i r)
  case Nil
  show ?case by simp
next
  case (Cons e es)
  let ?r2 = "emit [Sign (newEvent pk (date_now L i) e) sk]
          (setStatus (''Cloning event '' @ toString (i + 1) @ ''/'' @ toString n @ ''...'') r)"
  show ?case
  proof (cases "finalizeEvent L (newEvent pk (date_now L i) e) sk")
    case (Inl err)
    have "trace (snd (cloneAll L sk pk n i (e # es) r)) =
      trace r @ map (\<lambda>(j, e). Sign (newEvent pk (date_now L j) e) sk) (take 1 (enumerate i (e # es)))"
      using Inl by (simp add: Let_def)
    then show ?thesis by blast
  next
    case (Inr c)
    obtain k where k: "trace (snd (cloneAll L sk pk n (i + 1) es ?r2)) =
      trace ?r2 @ map (\<lambda>(j, e). Sign (newEvent pk (date_now L j) e) sk) (take k (enumerate (i + 1) es))"
      using Cons.IH by blast
    have "trace (snd (cloneAll L sk pk n i (e # es) r)) =
      trace r @ map (\<lambda>(j, e). Sign (newEvent pk (date_now L j) e) sk) (take (Suc k) (enumerate i (e # es)))"
      using Inr k by (auto simp: Let_def split: prod.splits sum.splits)
    then show ?thesis by blast
  qed
qed

lemma cloneAll_ok:
  "length cs = length es \<Longrightarrow>
   \<forall>j<length es. finalizeEvent L (newEvent pk (date_now L (i + j)) (es ! j)) sk = Inr (cs ! j) \<Longrightarrow>
   fst (cloneAll L sk pk n i es r) = Inr cs \<and>
   trace (snd (cloneAll L sk pk n i es r)) =
     trace r @ map (\<lambda>(j, e). Sign (newEvent pk (date_now L j) e) sk) (enumerate i es)"
proof (induction es arbitrary: i r cs)
  case Nil
  then show ?case by simp
next
  case (Cons e es)
  let ?r2 = "emit [Sign (newEvent pk (date_now L i) e) sk]
          (setStatus (''Cloning event '' @ toString (i + 1) @ ''/'' @ toString n @ ''...'') r)"
  obtain c cs' where cs: "cs = c # cs'" using Cons.prems(1) by (cases cs) auto
  have hd: "finalizeEvent L (newEvent pk (date_now L i) e) sk = Inr c"
    using Cons.prems(2) cs by force
  have len: "length cs' = length es" using Cons.prems(1) cs by simp
  have tl: "\<forall>j<length es. finalizeEvent L (newEvent pk (date_now L ((i + 1) + j)) (es ! j)) sk = Inr (cs' ! j)"
  proof (intro allI impI)
    fix j assume "j < length es"
    then have "finalizeEvent L (newEvent pk (date_now L (i + Suc j)) ((e # es) ! Suc j)) sk = Inr (cs ! Suc j)"
      using Cons.prems(2) by (metis Suc_less_eq length_Cons)
    then show "finalizeEvent L (newEvent pk (date_now L ((i + 1) + j)) (es ! j)) sk = Inr (cs' ! j)"
      using cs by simp
  qed
  have ih: "fst (cloneAll L sk pk n (i + 1) es ?r2) = Inr cs' \<and>
   trace (snd (cloneAll L sk pk n (i + 1) es ?r2)) =
     trace ?r2 @ map (\<lambda>(j, e). Sign (newEvent pk (date_now L j) e) sk) (enumerate (i + 1) es)"
    using Cons.IH [OF len tl] .
  show ?case using hd ih cs by (auto simp: Let_def split: prod.splits sum.splits)
qed

lemma publishAll_ui:
  "(ui (publishAll L rs n i cs r))\<lparr>status := m\<rparr> = (ui r)\<lparr>status := m\<rparr>"
proof (induction cs arbitrary: i r)
  case Nil
  show ?case by simp
next
  case (Cons c cs)
  obtain res es where calls: "publishCalls L c rs = (res, es)"
    by (cases "publishCalls L c rs")
  show ?case
  proof (cases res)
    case (Inl err)
    then show ?thesis using calls by (simp add: Let_def Cons.IH)
  next
    case (Inr arrays)
    then show ?thesis using calls
      by (cases "promise_any (map Inr arrays :: (thrown + (thrown + string) list) list)")
         (simp_all add: Let_def Cons.IH)
  qed
qed

lemma publishAll_trace:
  "trace (publishAll L rs n i cs r) =
     trace r @ concat (map (\<lambda>(j, c). publishRound L rs (Suc j) c) (enumerate i cs))"
proof (induction cs arbitrary: i r)
  case Nil
  show ?case by simp
next
  case (Cons c cs)
  obtain res es where calls: "publishCalls L c rs = (res, es)"
    by (cases "publishCalls L c rs")
  show ?case
  proof (cases res)
    case (Inl err)
    then show ?thesis using calls by (simp add: Let_def Cons.IH publishRound_def)
  next
    case (Inr arrays)
    then show ?thesis using calls
      by (cases "promise_any (map Inr arrays :: (thrown + (thrown + string) list) list)")
         (simp_all add: Let_def Cons.IH publishRound_def)
  qed
qed

lemma publishCalls_effects:
  "e \<in> set (snd (publishCalls L c rs)) \<Longrightarrow> \<exists>relay. e = Publish relay c"
proof (induction rs)
  case Nil
  then show ?case by simp
next
  case (Cons relay rs)
  show ?case
  proof (cases "publish L relay c")
    case (Inl err)
    then show ?thesis using Cons.prems by simp
  next
    case (Inr ps)
    obtain res es where calls: "publishCalls L c rs = (res, es)"
      by (cases "publishCalls L c rs")
    then have "e = Publish relay c \<or> e \<in> set (snd (publishCalls L c rs))"
      using Inr Cons.prems by (cases res) auto
    then show ?thesis using Cons.IH by blast
  qed
qed


lemma publishRound_throw:
  "publish L relay c = Inl err \<Longrightarrow>
   publishRound L (relay # rest) k c = [Publish relay c, Warn k (Thrown err)]"
  by (simp add: publishRound_def)

lemma publishRound_no_relay: "publishRound L [] k c = [Warn k (AggregateError [])]"
  by (simp add: publishRound_def)


section \<open>A run that reaches the end\<close>

lemma status_last:
  fixes a b :: AppState
  shows "a\<lparr>status := m\<rparr> = b\<lparr>status := m\<rparr> \<Longrightarrow>
    a\<lparr>events := cs, status := m\<rparr> = b\<lparr>events := cs, status := m\<rparr>"
  by (cases a, cases b) simp

lemma done_run:
  assumes src: "startsWith (npub s) ''npub1''" "nip19_decode L (npub s) = Inr d" "dtype d = ''npub''"
    and qry: "querySync L (relays s) \<lparr>kinds = [1], authors = [ddata d], limit = 50\<rparr> = Inr evs"
      "evs \<noteq> []"
    and dst: "nsec s \<noteq> []" "startsWith (nsec s) ''nsec1''" "nip19_decode L (nsec s) = Inr dn"
      "dtype dn = ''nsec''"
    and pk: "getPublicKey L (ddata dn) = Inr pk"
    and sgn: "length cs = length evs"
      "\<forall>j<length evs. finalizeEvent L (newEvent pk (date_now L j) (evs ! j)) (ddata dn) = Inr (cs ! j)"
  shows "handleCloneEvents L s =
     \<lparr>ui = s\<lparr>events := cs, isModalOpen := False, isLoading := False, error := None,
              status := ''Complete!''\<rparr>,
      trace = [Query (relays s) \<lparr>kinds = [1], authors = [ddata d], limit = 50\<rparr>,
               DerivePub (ddata dn)] @
              map (\<lambda>(j, e). Sign (newEvent pk (date_now L j) e) (ddata dn)) (enumerate 0 evs) @
              concat (map (\<lambda>(j, c). publishRound L (relays s) (Suc j) c) (enumerate 0 cs))\<rparr>"
proof -
  let ?r0 = "\<lparr>ui = s\<lparr>isLoading := True, error := None\<rparr>, trace = []\<rparr>"
  let ?f = "\<lparr>kinds = [1], authors = [ddata d], limit = 50\<rparr>"
  let ?r1 = "setStatus (''Found '' @ toString (length evs) @ '' events to clone...'')
               (emit [Query (relays s) ?f] (setStatus ''Fetching events...'' ?r0))"
  let ?r2 = "setStatus ''Cloning events...'' (emit [DerivePub (ddata dn)] ?r1)"
  obtain res r3 where run: "cloneAll L (ddata dn) pk (length evs) 0 evs ?r2 = (res, r3)"
    by (cases "cloneAll L (ddata dn) pk (length evs) 0 evs ?r2")
  have sgn': "\<forall>j<length evs. finalizeEvent L (newEvent pk (date_now L (0 + j)) (evs ! j)) (ddata dn) = Inr (cs ! j)"
    using sgn(2) by simp
  have ok: "res = Inr cs" "trace r3 = trace ?r2 @
      map (\<lambda>(j, e). Sign (newEvent pk (date_now L j) e) (ddata dn)) (enumerate 0 evs)"
    using cloneAll_ok [OF sgn(1) sgn', where n = "length evs" and r = ?r2] run by simp_all
  have ui3: "(ui r3)\<lparr>status := m\<rparr> = (ui ?r2)\<lparr>status := m\<rparr>" for m
    using cloneAll_ui [where L = L and sk = "ddata dn" and pk = pk and n = "length evs"
        and i = 0 and es = evs and r = ?r2 and m = m] run by simp
  let ?r4 = "publishAll L (relays s) (length cs) 0 cs (setStatus ''Publishing events...'' r3)"
  have ui4: "(ui ?r4)\<lparr>status := m\<rparr> = (ui r3)\<lparr>status := m\<rparr>" for m
    using publishAll_ui [where r = "setStatus ''Publishing events...'' r3" and m = m]
    by simp
  have tr4: "trace ?r4 = trace r3 @
      concat (map (\<lambda>(j, c). publishRound L (relays s) (Suc j) c) (enumerate 0 cs))"
    by (simp add: publishAll_trace)
  have cp: "cloneAndPublish L s evs ?r1 =
      (Inr (), setStatus ''Complete!'' (?r4\<lparr>ui := (ui ?r4)\<lparr>events := cs\<rparr>\<rparr>))"
    using dst pk run ok(1) by (simp add: cloneAndPublish_def Let_def)
  have tb: "tryBody L s ?r0 =
      (Inr (), setStatus ''Complete!'' (?r4\<lparr>ui := (ui ?r4)\<lparr>events := cs\<rparr>\<rparr>))"
    using src qry cp by (simp add: tryBody_def Let_def)
  have uiF: "ui (setStatus ''Complete!'' (?r4\<lparr>ui := (ui ?r4)\<lparr>events := cs\<rparr>\<rparr>)) =
      s\<lparr>events := cs, isLoading := True, error := None, status := ''Complete!''\<rparr>"
  proof -
    have "(ui ?r4)\<lparr>status := ''Complete!''\<rparr> = (ui ?r2)\<lparr>status := ''Complete!''\<rparr>"
      using ui4 ui3 by simp
    then have "(ui ?r4)\<lparr>events := cs, status := ''Complete!''\<rparr> =
       (ui ?r2)\<lparr>events := cs, status := ''Complete!''\<rparr>" by (rule status_last)
    then show ?thesis by simp
  qed
  have trF: "trace (setStatus ''Complete!'' (?r4\<lparr>ui := (ui ?r4)\<lparr>events := cs\<rparr>\<rparr>)) =
      [Query (relays s) ?f, DerivePub (ddata dn)] @
      map (\<lambda>(j, e). Sign (newEvent pk (date_now L j) e) (ddata dn)) (enumerate 0 evs) @
      concat (map (\<lambda>(j, c). publishRound L (relays s) (Suc j) c) (enumerate 0 cs))"
    using tr4 ok(2) by simp
  show ?thesis
    unfolding handleCloneEvents_def Let_def tb
    using uiF trF by (simp add: Run.equality)
qed

section \<open>Runs that stop early, and the run of the small world\<close>

lemma toString_1 [simp]: "toString (Suc 0) = ''1''"
  by (simp add: toString.simps digit_def)

lemma isQuery_simps [simp]:
  "isQuery (Query rs f)" "\<not> isQuery (DerivePub k)" "\<not> isQuery (Sign t k)"
  "\<not> isQuery (Publish relay c)" "\<not> isQuery (Delay ms)" "\<not> isQuery (Warn i errs)"
  "\<not> isQuery (LogError err)"
  by (simp_all add: isQuery_def)

lemma isPublish_simps [simp]:
  "\<not> isPublish (Query rs f)" "\<not> isPublish (DerivePub k)" "\<not> isPublish (Sign t k)"
  "isPublish (Publish relay c)" "\<not> isPublish (Delay ms)" "\<not> isPublish (Warn i errs)"
  "\<not> isPublish (LogError err)"
  by (simp_all add: isPublish_def)

lemma isDerivePub_simps [simp]:
  "\<not> isDerivePub (Query rs f)" "isDerivePub (DerivePub k)" "\<not> isDerivePub (Sign t k)"
  "\<not> isDerivePub (Publish relay c)" "\<not> isDerivePub (Delay ms)" "\<not> isDerivePub (Warn i errs)"
  "\<not> isDerivePub (LogError err)"
  by (simp_all add: isDerivePub_def)

lemma isSign_simps [simp]:
  "\<not> isSign (Query rs f)" "\<not> isSign (DerivePub k)" "isSign (Sign t k)"
  "\<not> isSign (Publish relay c)" "\<not> isSign (Delay ms)" "\<not> isSign (Warn i errs)"
  "\<not> isSign (LogError err)"
  by (simp_all add: isSign_def)

lemma source_fail_prefix:
  "\<not> startsWith (npub s) ''npub1'' \<Longrightarrow>
   handleCloneEvents L s =
     \<lparr>ui = s\<lparr>isModalOpen := False, isLoading := False,
              error := Some ''Invalid npub format. Must start with npub1''\<rparr>,
      trace = [LogError (Error ''Invalid npub format. Must start with npub1'')]\<rparr>"
  by (simp add: handleCloneEvents_def tryBody_def errorMessage_def emit_def)

lemma source_fail_type:
  "startsWith (npub s) ''npub1'' \<Longrightarrow> nip19_decode L (npub s) = Inr d \<Longrightarrow> dtype d \<noteq> ''npub'' \<Longrightarrow>
   handleCloneEvents L s =
     \<lparr>ui = s\<lparr>isModalOpen := False, isLoading := False, error := Some ''Invalid npub''\<rparr>,
      trace = [LogError (Error ''Invalid npub'')]\<rparr>"
  by (simp add: handleCloneEvents_def tryBody_def errorMessage_def emit_def)

lemma empty_query_run:
  assumes "startsWith (npub s) ''npub1''" "nip19_decode L (npub s) = Inr d" "dtype d = ''npub''"
    and "querySync L (relays s) \<lparr>kinds = [1], authors = [ddata d], limit = 50\<rparr> = Inr []"
  shows "handleCloneEvents L s =
     \<lparr>ui = s\<lparr>isModalOpen := False, isLoading := False,
              error := Some ''No events found for this pubkey'', status := ''Fetching events...''\<rparr>,
      trace = [Query (relays s) \<lparr>kinds = [1], authors = [ddata d], limit = 50\<rparr>,
               LogError (Error ''No events found for this pubkey'')]\<rparr>"
  using assms
  by (simp add: handleCloneEvents_def tryBody_def errorMessage_def emit_def setStatus_def Let_def)

lemma no_dest_run:
  assumes "startsWith (npub s) ''npub1''" "nip19_decode L (npub s) = Inr d" "dtype d = ''npub''"
    and "querySync L (relays s) \<lparr>kinds = [1], authors = [ddata d], limit = 50\<rparr> = Inr evs"
    and "evs \<noteq> []" and "nsec s = []"
  shows "handleCloneEvents L s =
     \<lparr>ui = s\<lparr>isModalOpen := False, isLoading := False, error := None,
              status := ''Found '' @ toString (length evs) @ '' events to clone...''\<rparr>,
      trace = [Query (relays s) \<lparr>kinds = [1], authors = [ddata d], limit = 50\<rparr>]\<rparr>"
  using assms
  by (simp add: handleCloneEvents_def tryBody_def cloneAndPublish_def emit_def setStatus_def Let_def)

lemma bad_dest_run:
  assumes "startsWith (npub s) ''npub1''" "nip19_decode L (npub s) = Inr d" "dtype d = ''npub''"
    and "querySync L (relays s) \<lparr>kinds = [1], authors = [ddata d], limit = 50\<rparr> = Inr evs"
    and "evs \<noteq> []" and "nsec s \<noteq> []"
    and "\<not> startsWith (nsec s) ''nsec1'' \<or> (nip19_decode L (nsec s) = Inr dn \<and> dtype dn \<noteq> ''nsec'')"
  shows "handleCloneEvents L s =
     \<lparr>ui = s\<lparr>isModalOpen := False, isLoading := False,
              error := Some (if startsWith (nsec s) ''nsec1'' then ''Invalid nsec''
                             else ''Invalid nsec format. Must start with nsec1''),
              status := ''Found '' @ toString (length evs) @ '' events to clone...''\<rparr>,
      trace = [Query (relays s) \<lparr>kinds = [1], authors = [ddata d], limit = 50\<rparr>,
               LogError (Error (if startsWith (nsec s) ''nsec1'' then ''Invalid nsec''
                             else ''Invalid nsec format. Must start with nsec1''))]\<rparr>"
  using assms
  by (auto simp add: handleCloneEvents_def tryBody_def cloneAndPublish_def errorMessage_def
      emit_def setStatus_def Let_def)

lemma demo_run:
  "handleCloneEvents demoLib demoState =
     \<lparr>ui = demoState\<lparr>events := [clone1, clone2], isModalOpen := False, status := ''Complete!''\<rparr>,
      trace = [Query [''wss://bad'', ''wss://good''] \<lparr>kinds = [1], authors = [KeyHex ''a11ce''], limit = 50\<rparr>,
               DerivePub (KeyBytes [1, 2, 3]),
               Sign (clone1\<lparr>event_id := [], sig := []\<rparr>) (KeyBytes [1, 2, 3]),
               Sign (clone2\<lparr>event_id := [], sig := []\<rparr>) (KeyBytes [1, 2, 3]),
               Publish ''wss://bad'' clone1, Publish ''wss://good'' clone1,
               Delay 50,
               Publish ''wss://bad'' clone2, Publish ''wss://good'' clone2,
               Delay 50]\<rparr>"
  by (simp add: handleCloneEvents_def tryBody_def cloneAndPublish_def demoLib_def demoState_def
      startsWith_def demoDecode_def demoQuery_def demoSign_def demoPublish_def note1_def note2_def
      clone1_def clone2_def newEvent_def setStatus_def emit_def Let_def)

section \<open>What every run does\<close>

lemma publishRound_effects:
  assumes "e \<in> set (publishRound L rs k c)"
  shows "(\<exists>relay. e = Publish relay c) \<or> e = Delay 50 \<or> (\<exists>w. e = Warn k w)"
proof -
  obtain res es where calls: "publishCalls L c rs = (res, es)"
    by (cases "publishCalls L c rs")
  have es: "e \<in> set es \<Longrightarrow> \<exists>relay. e = Publish relay c"
    using publishCalls_effects [of e L c rs] calls by simp
  show ?thesis
  proof (cases res)
    case (Inl err)
    then show ?thesis using assms calls es by (auto simp: publishRound_def)
  next
    case (Inr arrays)
    then show ?thesis using assms calls es
      by (cases "promise_any (map Inr arrays :: (thrown + (thrown + string) list) list)")
         (auto simp: publishRound_def)
  qed
qed

lemma publishRound_no_query: "filter isQuery (publishRound L rs k c) = []"
  by (auto simp: filter_empty_conv dest: publishRound_effects)

lemma rounds_no_query:
  "filter isQuery (concat (map (\<lambda>(j, c). publishRound L rs (Suc j) c) xs)) = []"
  by (induction xs) (auto simp: publishRound_no_query)

lemma signs_no_query:
  "filter isQuery (map (\<lambda>(j, e). Sign (newEvent pk (date_now L j) e) sk) xs) = []"
  by (induction xs) auto

lemma cloneAll_queries:
  "filter isQuery (trace (snd (cloneAll L sk pk n i es r))) = filter isQuery (trace r)"
proof -
  obtain k where "trace (snd (cloneAll L sk pk n i es r)) =
     trace r @ map (\<lambda>(j, e). Sign (newEvent pk (date_now L j) e) sk) (take k (enumerate i es))"
    using cloneAll_trace_any by blast
  then show ?thesis by (simp add: signs_no_query)
qed

lemma publishAll_queries:
  "filter isQuery (trace (publishAll L rs n i cs r)) = filter isQuery (trace r)"
  by (simp add: publishAll_trace rounds_no_query)

lemma cloneAndPublish_queries:
  "filter isQuery (trace (snd (cloneAndPublish L s evs r))) = filter isQuery (trace r)"
proof (cases "nsec s \<noteq> [] \<and> startsWith (nsec s) ''nsec1''")
  case False
  then show ?thesis by (auto simp: cloneAndPublish_def)
next
  case True
  show ?thesis
  proof (cases "nip19_decode L (nsec s)")
    case (Inl err)
    then show ?thesis using True by (simp add: cloneAndPublish_def)
  next
    case (Inr dn)
    show ?thesis
    proof (cases "dtype dn = ''nsec''")
      case False
      then show ?thesis using True Inr by (simp add: cloneAndPublish_def)
    next
      case ty: True
      show ?thesis
      proof (cases "getPublicKey L (ddata dn)")
        case (Inl err)
        then show ?thesis using True Inr ty by (simp add: cloneAndPublish_def Let_def)
      next
        case pk: (Inr pk)
        let ?r2 = "setStatus ''Cloning events...'' (emit [DerivePub (ddata dn)] r)"
        obtain res r3 where run: "cloneAll L (ddata dn) pk (length evs) 0 evs ?r2 = (res, r3)"
          by (cases "cloneAll L (ddata dn) pk (length evs) 0 evs ?r2")
        have q3: "filter isQuery (trace r3) = filter isQuery (trace r)"
          using cloneAll_queries [where L = L and sk = "ddata dn" and pk = pk and n = "length evs"
              and i = 0 and es = evs and r = ?r2] run by simp
        show ?thesis using True Inr ty pk run q3
          by (cases res) (simp_all add: cloneAndPublish_def Let_def publishAll_queries)
      qed
    qed
  qed
qed

lemma cloneAndPublish_fail:
  assumes "fst (cloneAndPublish L s evs r) = Inl err"
  shows "(ui (snd (cloneAndPublish L s evs r)))\<lparr>status := m\<rparr> = (ui r)\<lparr>status := m\<rparr>"
proof (cases "nsec s \<noteq> [] \<and> startsWith (nsec s) ''nsec1''")
  case False
  then show ?thesis by (auto simp: cloneAndPublish_def)
next
  case True
  show ?thesis
  proof (cases "nip19_decode L (nsec s)")
    case (Inl e)
    then show ?thesis using True by (simp add: cloneAndPublish_def)
  next
    case (Inr dn)
    show ?thesis
    proof (cases "dtype dn = ''nsec''")
      case False
      then show ?thesis using True Inr by (simp add: cloneAndPublish_def)
    next
      case ty: True
      show ?thesis
      proof (cases "getPublicKey L (ddata dn)")
        case (Inl e)
        then show ?thesis using True Inr ty by (simp add: cloneAndPublish_def Let_def)
      next
        case pk: (Inr pk)
        let ?r2 = "setStatus ''Cloning events...'' (emit [DerivePub (ddata dn)] r)"
        obtain res r3 where run: "cloneAll L (ddata dn) pk (length evs) 0 evs ?r2 = (res, r3)"
          by (cases "cloneAll L (ddata dn) pk (length evs) 0 evs ?r2")
        have u3: "(ui r3)\<lparr>status := m\<rparr> = (ui r)\<lparr>status := m\<rparr>"
          using cloneAll_ui [where L = L and sk = "ddata dn" and pk = pk and n = "length evs"
              and i = 0 and es = evs and r = ?r2 and m = m] run by simp
        show ?thesis
        proof (cases res)
          case (Inl e)
          then show ?thesis using True Inr ty pk run u3 by (simp add: cloneAndPublish_def Let_def)
        next
          case (Inr cs)
          then have "fst (cloneAndPublish L s evs r) = Inr ()"
            using True \<open>nip19_decode L (nsec s) = Inr dn\<close> ty pk run
            by (simp add: cloneAndPublish_def Let_def)
          then show ?thesis using assms by simp
        qed
      qed
    qed
  qed
qed

lemma tryBody_queries:
  "filter isQuery (trace (snd (tryBody L s r))) =
     filter isQuery (trace r) @
     (if startsWith (npub s) ''npub1'' then
        (case nip19_decode L (npub s) of
           Inl err \<Rightarrow> []
         | Inr d \<Rightarrow> if dtype d = ''npub''
                    then [Query (relays s) \<lparr>kinds = [1], authors = [ddata d], limit = 50\<rparr>]
                    else [])
      else [])"
  by (simp add: tryBody_def Let_def cloneAndPublish_queries split: sum.splits)

lemma tryBody_fail:
  assumes "fst (tryBody L s r) = Inl err"
  shows "(ui (snd (tryBody L s r)))\<lparr>status := m\<rparr> = (ui r)\<lparr>status := m\<rparr>"
proof (cases "startsWith (npub s) ''npub1''")
  case False
  then show ?thesis by (simp add: tryBody_def)
next
  case True
  show ?thesis
  proof (cases "nip19_decode L (npub s)")
    case (Inl e)
    then show ?thesis using True by (simp add: tryBody_def)
  next
    case (Inr d)
    show ?thesis
    proof (cases "dtype d = ''npub''")
      case False
      then show ?thesis using True Inr by (simp add: tryBody_def)
    next
      case ty: True
      let ?f = "\<lparr>kinds = [1], authors = [ddata d], limit = 50\<rparr>"
      show ?thesis
      proof (cases "querySync L (relays s) ?f")
        case (Inl e)
        then show ?thesis using True Inr ty by (simp add: tryBody_def Let_def)
      next
        case q: (Inr evs)
        show ?thesis
        proof (cases "evs = []")
          case True
          then show ?thesis using \<open>startsWith (npub s) ''npub1''\<close> Inr ty q
            by (simp add: tryBody_def Let_def)
        next
          case False
          let ?r1 = "setStatus (''Found '' @ toString (length evs) @ '' events to clone...'')
               (emit [Query (relays s) ?f] (setStatus ''Fetching events...'' r))"
          have tb: "tryBody L s r = cloneAndPublish L s evs ?r1"
            using True Inr ty q False by (simp add: tryBody_def Let_def)
          then have "fst (cloneAndPublish L s evs ?r1) = Inl err" using assms by simp
          then have "(ui (snd (cloneAndPublish L s evs ?r1)))\<lparr>status := m\<rparr> = (ui ?r1)\<lparr>status := m\<rparr>"
            by (rule cloneAndPublish_fail)
          then show ?thesis using tb by simp
        qed
      qed
    qed
  qed
qed

lemma status_only:
  fixes a b :: AppState
  shows "a\<lparr>status := m\<rparr> = b\<lparr>status := m\<rparr> \<Longrightarrow> a = b\<lparr>status := status a\<rparr>"
  by (cases a, cases b) simp

lemma cloneAndPublish_ok_error:
  "error (ui (snd (cloneAndPublish L s evs r))) = error (ui r)"
proof (cases "nsec s \<noteq> [] \<and> startsWith (nsec s) ''nsec1''")
  case False
  then show ?thesis by (auto simp: cloneAndPublish_def)
next
  case True
  show ?thesis
  proof (cases "nip19_decode L (nsec s)")
    case (Inl e)
    then show ?thesis using True by (simp add: cloneAndPublish_def)
  next
    case (Inr dn)
    show ?thesis
    proof (cases "dtype dn = ''nsec''")
      case False
      then show ?thesis using True Inr by (simp add: cloneAndPublish_def)
    next
      case ty: True
      show ?thesis
      proof (cases "getPublicKey L (ddata dn)")
        case (Inl e)
        then show ?thesis using True Inr ty by (simp add: cloneAndPublish_def Let_def)
      next
        case pk: (Inr pk)
        let ?r2 = "setStatus ''Cloning events...'' (emit [DerivePub (ddata dn)] r)"
        obtain res r3 where run: "cloneAll L (ddata dn) pk (length evs) 0 evs ?r2 = (res, r3)"
          by (cases "cloneAll L (ddata dn) pk (length evs) 0 evs ?r2")
        have "(ui r3)\<lparr>status := []\<rparr> = (ui r)\<lparr>status := []\<rparr>"
          using cloneAll_ui [where L = L and sk = "ddata dn" and pk = pk and n = "length evs"
              and i = 0 and es = evs and r = ?r2 and m = "[]"] run by simp
        then have "error ((ui r3)\<lparr>status := []\<rparr>) = error ((ui r)\<lparr>status := []\<rparr>)" by simp
        then have e3: "error (ui r3) = error (ui r)" by simp
        show ?thesis
        proof (cases res)
          case (Inl e)
          then show ?thesis using True Inr ty pk run e3 by (simp add: cloneAndPublish_def Let_def)
        next
          case cs: (Inr cs)
          let ?r4 = "publishAll L (relays s) (length cs) 0 cs (setStatus ''Publishing events...'' r3)"
          have "(ui ?r4)\<lparr>status := []\<rparr> = (ui r3)\<lparr>status := []\<rparr>"
            using publishAll_ui [where r = "setStatus ''Publishing events...'' r3" and m = "[]"]
            by simp
          then have "error ((ui ?r4)\<lparr>status := []\<rparr>) = error ((ui r3)\<lparr>status := []\<rparr>)" by simp
          then have "error (ui ?r4) = error (ui r)" using e3 by simp
          then show ?thesis using True Inr ty pk run cs by (simp add: cloneAndPublish_def Let_def)
        qed
      qed
    qed
  qed
qed

lemma tryBody_error: "error (ui (snd (tryBody L s r))) = error (ui r)"
  by (simp add: tryBody_def Let_def cloneAndPublish_ok_error split: sum.splits)

lemma failed_run:
  assumes "error (ui (handleCloneEvents L s)) \<noteq> None"
  shows "\<exists>err. ui (handleCloneEvents L s) =
     s\<lparr>isModalOpen := False, isLoading := False, error := Some (errorMessage err),
       status := status (ui (handleCloneEvents L s))\<rparr>"
proof -
  let ?r0 = "\<lparr>ui = s\<lparr>isLoading := True, error := None\<rparr>, trace = []\<rparr>"
  obtain res r1 where tb: "tryBody L s ?r0 = (res, r1)" by (cases "tryBody L s ?r0")
  show ?thesis
  proof (cases res)
    case (Inr u)
    have "error (ui r1) = None" using tryBody_error [of L s ?r0] tb by simp
    then have "error (ui (handleCloneEvents L s)) = None"
      using tb Inr by (simp add: handleCloneEvents_def Let_def)
    then show ?thesis using assms by simp
  next
    case (Inl err)
    then have "fst (tryBody L s ?r0) = Inl err" using tb by simp
    then have "(ui (snd (tryBody L s ?r0)))\<lparr>status := []\<rparr> = (ui ?r0)\<lparr>status := []\<rparr>"
      by (rule tryBody_fail)
    then have "ui r1 = (ui ?r0)\<lparr>status := status (ui r1)\<rparr>" using tb status_only by simp
    then have u1: "ui r1 = s\<lparr>isLoading := True, error := None, status := status (ui r1)\<rparr>" by simp
    have "ui (handleCloneEvents L s) =
        (ui r1)\<lparr>error := Some (errorMessage err), isLoading := False, isModalOpen := False\<rparr>"
      using tb Inl by (simp add: handleCloneEvents_def Let_def)
    then have "ui (handleCloneEvents L s) =
        s\<lparr>isModalOpen := False, isLoading := False, error := Some (errorMessage err),
          status := status (ui r1)\<rparr>"
      by (subst (asm) u1) simp
    moreover from this have "status (ui (handleCloneEvents L s)) = status (ui r1)" by simp
    ultimately show ?thesis by auto
  qed
qed

lemma run_queries:
  "filter isQuery (trace (handleCloneEvents L s)) =
     (if startsWith (npub s) ''npub1'' then
        (case nip19_decode L (npub s) of
           Inl err \<Rightarrow> []
         | Inr d \<Rightarrow> if dtype d = ''npub''
                    then [Query (relays s) \<lparr>kinds = [1], authors = [ddata d], limit = 50\<rparr>]
                    else [])
      else [])"
proof -
  let ?r0 = "\<lparr>ui = s\<lparr>isLoading := True, error := None\<rparr>, trace = []\<rparr>"
  obtain res r1 where tb: "tryBody L s ?r0 = (res, r1)" by (cases "tryBody L s ?r0")
  have "filter isQuery (trace (handleCloneEvents L s)) = filter isQuery (trace r1)"
    using tb by (cases res) (simp_all add: handleCloneEvents_def Let_def)
  moreover have "filter isQuery (trace r1) = filter isQuery (trace (snd (tryBody L s ?r0)))"
    using tb by simp
  ultimately show ?thesis by (simp only: tryBody_queries) simp
qed

section \<open>Facts about the effects and the small world\<close>

lemma toString_Suc_Suc_0 [simp]: "toString (Suc (Suc 0)) = ''2''"
  by (simp add: toString.simps digit_def)

lemma demo_source:
  "startsWith (npub demoState) ''npub1''"
  "nip19_decode demoLib (npub demoState) = Inr \<lparr>dtype = ''npub'', ddata = KeyHex ''a11ce''\<rparr>"
  "dtype \<lparr>dtype = ''npub'', ddata = KeyHex ''a11ce''\<rparr> = ''npub''"
  by (simp_all add: demoState_def demoLib_def demoDecode_def startsWith_def)

lemma demo_query:
  "querySync demoLib (relays demoState)
     \<lparr>kinds = [1], authors = [ddata \<lparr>dtype = ''npub'', ddata = KeyHex ''a11ce''\<rparr>], limit = 50\<rparr> =
   Inr [note1, note2]"
  "[note1, note2] \<noteq> []"
  by (simp_all add: demoState_def demoLib_def demoQuery_def)

lemma demo_dest:
  "nsec demoState \<noteq> []"
  "startsWith (nsec demoState) ''nsec1''"
  "nip19_decode demoLib (nsec demoState) = Inr \<lparr>dtype = ''nsec'', ddata = KeyBytes [1, 2, 3]\<rparr>"
  "dtype \<lparr>dtype = ''nsec'', ddata = KeyBytes [1, 2, 3]\<rparr> = ''nsec''"
  "getPublicKey demoLib (ddata \<lparr>dtype = ''nsec'', ddata = KeyBytes [1, 2, 3]\<rparr>) = Inr ''b0b''"
  by (simp_all add: demoState_def demoLib_def demoDecode_def startsWith_def)

lemma demo_signed:
  "length [clone1, clone2] = length [note1, note2]"
  "\<forall>j<length [note1, note2].
     finalizeEvent demoLib (newEvent ''b0b'' (date_now demoLib j) ([note1, note2] ! j))
       (ddata \<lparr>dtype = ''nsec'', ddata = KeyBytes [1, 2, 3]\<rparr>) = Inr ([clone1, clone2] ! j)"
  by (simp_all add: demoLib_def demoSign_def newEvent_def note1_def note2_def clone1_def
      clone2_def All_less_Suc)

lemma demo_signer_keeps:
  "\<forall>t c. pubkey t = pk \<and> finalizeEvent demoLib t k = Inr c \<longrightarrow>
     kind c = kind t \<and> tags c = tags t \<and> content c = content t \<and> pubkey c = pubkey t \<and>
     created_at c = created_at t"
  by (auto simp: demoLib_def demoSign_def)

lemma member_of_queries:
  assumes "e \<in> set (if startsWith (npub s) ''npub1'' then
        (case nip19_decode L (npub s) of
           Inl err \<Rightarrow> []
         | Inr d \<Rightarrow> if dtype d = ''npub''
                    then [Query (relays s) \<lparr>kinds = [1], authors = [ddata d], limit = 50\<rparr>]
                    else [])
      else [])"
  shows "\<exists>d. nip19_decode L (npub s) = Inr d \<and>
           e = Query (relays s) \<lparr>kinds = [1], authors = [ddata d], limit = 50\<rparr>"
proof (cases "nip19_decode L (npub s)")
  case (Inl err)
  then show ?thesis using assms by (cases "startsWith (npub s) ''npub1''") simp_all
next
  case (Inr d)
  then show ?thesis using assms
    by (cases "startsWith (npub s) ''npub1''"; cases "dtype d = ''npub''") simp_all
qed

lemma signs_all_sign:
  "filter isSign (map (\<lambda>(j, e). Sign (newEvent pk (date_now L j) e) sk) xs) =
     map (\<lambda>(j, e). Sign (newEvent pk (date_now L j) e) sk) xs"
  by (induction xs) auto

lemma signs_no_derive:
  "filter isDerivePub (map (\<lambda>(j, e). Sign (newEvent pk (date_now L j) e) sk) xs) = []"
  by (induction xs) auto

lemma publishRound_no_sign: "filter isSign (publishRound L rs k c) = []"
  by (auto simp: filter_empty_conv dest: publishRound_effects)

lemma publishRound_no_derive: "filter isDerivePub (publishRound L rs k c) = []"
  by (auto simp: filter_empty_conv dest: publishRound_effects)

lemma rounds_no_sign:
  "filter isSign (concat (map (\<lambda>(j, c). publishRound L rs (Suc j) c) xs)) = []"
  by (induction xs) (auto simp: publishRound_no_sign)

lemma rounds_no_derive:
  "filter isDerivePub (concat (map (\<lambda>(j, c). publishRound L rs (Suc j) c) xs)) = []"
  by (induction xs) (auto simp: publishRound_no_derive)


section \<open>The claims\<close>

text \<open>
  C1. In a run with a valid source key, a non-empty query result and a valid
  destination secret key, the public key is derived from the secret key once, and
  every fetched event is signed once, in the order of the fetch, from a template
  that has the kind, the tags and the content of the fetched event, the derived
  public key as author, the seconds of the clock value read for that event
  (\<open>date_now L j\<close> for the \<open>j\<close>-th event) as \<open>created_at\<close>, and empty \<open>id\<close> and
  \<open>sig\<close>. The list of cloned events is the list of the signed results \<open>cs\<close>, one
  per fetched event. With a signer that keeps the kind, tags, content, author and
  \<open>created_at\<close> of a template whose author is the derived public key, as
  \<open>finalizeEvent\<close> of \<open>nostr-tools\<close> does, the cloned event has these values
  itself.
\<close>

theorem C1_one_clone_per_fetched_event:
  assumes "startsWith (npub s) ''npub1''" and "nip19_decode L (npub s) = Inr d"
    and "dtype d = ''npub''"
    and "querySync L (relays s) \<lparr>kinds = [1], authors = [ddata d], limit = 50\<rparr> = Inr evs"
    and "evs \<noteq> []"
    and "nsec s \<noteq> []" and "startsWith (nsec s) ''nsec1''"
    and "nip19_decode L (nsec s) = Inr dn" and "dtype dn = ''nsec''"
    and "getPublicKey L (ddata dn) = Inr pk"
    and "length cs = length evs"
    and "\<forall>j<length evs.
           finalizeEvent L (newEvent pk (date_now L j) (evs ! j)) (ddata dn) = Inr (cs ! j)"
    and keeps: "\<forall>t c. pubkey t = pk \<and> finalizeEvent L t (ddata dn) = Inr c \<longrightarrow>
           kind c = kind t \<and> tags c = tags t \<and> content c = content t \<and>
           pubkey c = pubkey t \<and> created_at c = created_at t"
  shows "events (ui (handleCloneEvents L s)) = cs \<and> length cs = length evs \<and>
         filter isDerivePub (trace (handleCloneEvents L s)) = [DerivePub (ddata dn)] \<and>
         filter isSign (trace (handleCloneEvents L s)) =
           map (\<lambda>(j, e). Sign (newEvent pk (date_now L j) e) (ddata dn)) (enumerate 0 evs) \<and>
         (\<forall>j<length evs.
            event_id (newEvent pk (date_now L j) (evs ! j)) = [] \<and>
            sig (newEvent pk (date_now L j) (evs ! j)) = [] \<and>
            kind (cs ! j) = kind (evs ! j) \<and> tags (cs ! j) = tags (evs ! j) \<and>
            content (cs ! j) = content (evs ! j) \<and> pubkey (cs ! j) = pk \<and>
            created_at (cs ! j) = date_now L j div 1000)"
proof -
  note run = done_run [OF assms(1-12)]
  have ev: "events (ui (handleCloneEvents L s)) = cs" by (simp add: run)
  have dp: "filter isDerivePub (trace (handleCloneEvents L s)) = [DerivePub (ddata dn)]"
    by (simp add: run signs_no_derive rounds_no_derive)
  have sg: "filter isSign (trace (handleCloneEvents L s)) =
           map (\<lambda>(j, e). Sign (newEvent pk (date_now L j) e) (ddata dn)) (enumerate 0 evs)"
    by (simp add: run signs_all_sign rounds_no_sign)
  have each: "event_id (newEvent pk (date_now L j) (evs ! j)) = [] \<and>
            sig (newEvent pk (date_now L j) (evs ! j)) = [] \<and>
            kind (cs ! j) = kind (evs ! j) \<and> tags (cs ! j) = tags (evs ! j) \<and>
            content (cs ! j) = content (evs ! j) \<and> pubkey (cs ! j) = pk \<and>
            created_at (cs ! j) = date_now L j div 1000" if "j < length evs" for j
  proof -
    let ?t = "newEvent pk (date_now L j) (evs ! j)"
    have "finalizeEvent L ?t (ddata dn) = Inr (cs ! j)" using assms(12) that by blast
    moreover have "pubkey ?t = pk" by (simp add: newEvent_def)
    ultimately have "kind (cs ! j) = kind ?t \<and> tags (cs ! j) = tags ?t \<and> content (cs ! j) = content ?t \<and>
           pubkey (cs ! j) = pubkey ?t \<and> created_at (cs ! j) = created_at ?t"
      using keeps by blast
    then show ?thesis by (simp add: newEvent_def)
  qed
  show ?thesis using ev dp sg each assms(11) by blast
qed

theorem C1_one_clone_per_fetched_event_witness:
  "events (ui (handleCloneEvents demoLib demoState)) = [clone1, clone2] \<and>
   filter isDerivePub (trace (handleCloneEvents demoLib demoState)) =
     [DerivePub (KeyBytes [1, 2, 3])] \<and>
   kind clone2 = kind note2 \<and> tags clone2 = tags note2 \<and> content clone2 = content note2 \<and>
   pubkey clone2 = ''b0b'' \<and> created_at clone2 = date_now demoLib 1 div 1000 \<and>
   created_at clone2 \<noteq> created_at note2"
proof -
  note T = C1_one_clone_per_fetched_event
    [OF demo_source demo_query demo_dest demo_signed demo_signer_keeps]
  from T have a: "events (ui (handleCloneEvents demoLib demoState)) = [clone1, clone2]"
    by blast
  from T have b: "filter isDerivePub (trace (handleCloneEvents demoLib demoState)) =
     [DerivePub (KeyBytes [1, 2, 3])]"
    by simp
  from T have c: "\<forall>j<length [note1, note2].
            event_id (newEvent ''b0b'' (date_now demoLib j) ([note1, note2] ! j)) = [] \<and>
            sig (newEvent ''b0b'' (date_now demoLib j) ([note1, note2] ! j)) = [] \<and>
            kind ([clone1, clone2] ! j) = kind ([note1, note2] ! j) \<and>
            tags ([clone1, clone2] ! j) = tags ([note1, note2] ! j) \<and>
            content ([clone1, clone2] ! j) = content ([note1, note2] ! j) \<and>
            pubkey ([clone1, clone2] ! j) = ''b0b'' \<and>
            created_at ([clone1, clone2] ! j) = date_now demoLib j div 1000"
    by blast
  have d: "kind clone2 = kind note2 \<and> tags clone2 = tags note2 \<and> content clone2 = content note2 \<and>
   pubkey clone2 = ''b0b'' \<and> created_at clone2 = date_now demoLib 1 div 1000"
    using c [rule_format, of 1] by simp
  have e: "created_at clone2 \<noteq> created_at note2" by (simp add: clone2_def note2_def)
  show ?thesis using a b d e by blast
qed

text \<open>
  C2 asks that the publish of an event that every relay rejects counts as failed
  and is caught and logged, the loop going on. The handler hands the arrays that
  \<open>pool.publish\<close> returns to \<open>Promise.any\<close>, not the promises inside them, so
  \<open>Promise.any\<close> is fulfilled whatever the relays answer. In the run from
  \<open>demoState\<close> both relays reject the first cloned event: there is no warning for
  it, and its round ends with the delay like the round of the second event, which
  one relay accepts. The rest of the claim does hold in this run: both events go
  to both relays in the order of the fetch, and the run ends without an error.
\<close>

theorem C2_rejection_by_all_relays_not_caught:
  "publish demoLib ''wss://bad'' clone1 = Inr [Inl (Error ''rejected'')] \<and>
   publish demoLib ''wss://good'' clone1 = Inr [Inl (Error ''rejected'')] \<and>
   publish demoLib ''wss://good'' clone2 = Inr [Inr ''ok''] \<and>
   trace (handleCloneEvents demoLib demoState) =
     [Query [''wss://bad'', ''wss://good''] \<lparr>kinds = [1], authors = [KeyHex ''a11ce''], limit = 50\<rparr>,
      DerivePub (KeyBytes [1, 2, 3]),
      Sign (clone1\<lparr>event_id := [], sig := []\<rparr>) (KeyBytes [1, 2, 3]),
      Sign (clone2\<lparr>event_id := [], sig := []\<rparr>) (KeyBytes [1, 2, 3]),
      Publish ''wss://bad'' clone1, Publish ''wss://good'' clone1,
      Delay 50,
      Publish ''wss://bad'' clone2, Publish ''wss://good'' clone2,
      Delay 50] \<and>
   error (ui (handleCloneEvents demoLib demoState)) = None"
  by (simp add: demo_run) (simp add: demoLib_def demoPublish_def clone1_def clone2_def demoState_def)

text \<open>
  C3, as the spec has it, fails: a destination key that is provided with a wrong
  prefix is looked at only after the relay query has been issued. In the run
  below the query is in the trace and the run then ends with the format error.
\<close>

theorem C3_query_precedes_destination_check:
  "nsec badDestState \<noteq> [] \<and> \<not> startsWith (nsec badDestState) ''nsec1'' \<and>
   trace (handleCloneEvents demoLib badDestState) =
     [Query [''wss://bad'', ''wss://good''] \<lparr>kinds = [1], authors = [KeyHex ''a11ce''], limit = 50\<rparr>,
      LogError (Error ''Invalid nsec format. Must start with nsec1'')]"
  by (simp add: handleCloneEvents_def tryBody_def cloneAndPublish_def demoLib_def demoState_def
      badDestState_def startsWith_def demoDecode_def demoQuery_def errorMessage_def
      setStatus_def emit_def Let_def)

text \<open>
  C3, amended. When the source key is valid, the query returns at least one event
  and the destination secret key is provided but has the wrong prefix or decodes
  to another key category, the run issues the relay query first and then fails at
  the check of the destination key, with the message of that check: the query and
  the \<open>console.error\<close> call are its only effects, so no key is derived, nothing is
  signed and nothing is published, and the list of cloned events is the one from
  before.
\<close>

theorem C3_malformed_destination_fails_after_query:
  assumes "startsWith (npub s) ''npub1''" and "nip19_decode L (npub s) = Inr d"
    and "dtype d = ''npub''"
    and "querySync L (relays s) \<lparr>kinds = [1], authors = [ddata d], limit = 50\<rparr> = Inr evs"
    and "evs \<noteq> []" and "nsec s \<noteq> []"
    and "\<not> startsWith (nsec s) ''nsec1'' \<or> (nip19_decode L (nsec s) = Inr dn \<and> dtype dn \<noteq> ''nsec'')"
  shows "error (ui (handleCloneEvents L s)) =
           Some (if startsWith (nsec s) ''nsec1'' then ''Invalid nsec''
                 else ''Invalid nsec format. Must start with nsec1'') \<and>
         trace (handleCloneEvents L s) =
           [Query (relays s) \<lparr>kinds = [1], authors = [ddata d], limit = 50\<rparr>,
            LogError (Error (if startsWith (nsec s) ''nsec1'' then ''Invalid nsec''
                             else ''Invalid nsec format. Must start with nsec1''))] \<and>
         filter isDerivePub (trace (handleCloneEvents L s)) = [] \<and>
         filter isSign (trace (handleCloneEvents L s)) = [] \<and>
         filter isPublish (trace (handleCloneEvents L s)) = [] \<and>
         events (ui (handleCloneEvents L s)) = events s"
  by (simp add: bad_dest_run [OF assms])

theorem C3_malformed_destination_fails_after_query_witness:
  "nsec badDestState \<noteq> [] \<and> \<not> startsWith (nsec badDestState) ''nsec1'' \<and>
   error (ui (handleCloneEvents demoLib badDestState)) =
     Some ''Invalid nsec format. Must start with nsec1'' \<and>
   filter isPublish (trace (handleCloneEvents demoLib badDestState)) = [] \<and>
   filter isQuery (trace (handleCloneEvents demoLib badDestState)) =
     [Query [''wss://bad'', ''wss://good''] \<lparr>kinds = [1], authors = [KeyHex ''a11ce''], limit = 50\<rparr>] \<and>
   events (ui (handleCloneEvents demoLib badDestState)) = [oldClone]"
proof -
  have h1: "startsWith (npub badDestState) ''npub1''"
    by (simp add: badDestState_def demoState_def startsWith_def)
  have h2: "nip19_decode demoLib (npub badDestState) = Inr \<lparr>dtype = ''npub'', ddata = KeyHex ''a11ce''\<rparr>"
    by (simp add: badDestState_def demoState_def demoLib_def demoDecode_def)
  have h3: "dtype \<lparr>dtype = ''npub'', ddata = KeyHex ''a11ce''\<rparr> = ''npub''" by simp
  have h4: "querySync demoLib (relays badDestState)
      \<lparr>kinds = [1], authors = [ddata \<lparr>dtype = ''npub'', ddata = KeyHex ''a11ce''\<rparr>], limit = 50\<rparr> =
      Inr [note1, note2]"
    by (simp add: demoLib_def demoQuery_def)
  have h5: "[note1, note2] \<noteq> []" by simp
  have h6: "nsec badDestState \<noteq> []" by (simp add: badDestState_def)
  have h7: "\<not> startsWith (nsec badDestState) ''nsec1''"
    by (simp add: badDestState_def startsWith_def)
  have h8: "\<not> startsWith (nsec badDestState) ''nsec1'' \<or>
      (nip19_decode demoLib (nsec badDestState) = Inr \<lparr>dtype = ''note'', ddata = KeyHex ''0dd''\<rparr> \<and>
       dtype \<lparr>dtype = ''note'', ddata = KeyHex ''0dd''\<rparr> \<noteq> ''nsec'')"
    using h7 by simp
  show ?thesis
    using C3_malformed_destination_fails_after_query [OF h1 h2 h3 h4 h5 h6 h8] h6 h7
    by (simp add: badDestState_def demoState_def)
qed

text \<open>
  C4. When the relay query returns no event, the run ends with the error message
  \<open>No events found for this pubkey\<close>; nothing is signed and nothing is published:
  the query and the \<open>console.error\<close> call are its only effects, and the list of
  cloned events is the one from before.
\<close>

theorem C4_empty_query_fails:
  assumes "startsWith (npub s) ''npub1''" and "nip19_decode L (npub s) = Inr d"
    and "dtype d = ''npub''"
    and "querySync L (relays s) \<lparr>kinds = [1], authors = [ddata d], limit = 50\<rparr> = Inr []"
  shows "error (ui (handleCloneEvents L s)) = Some ''No events found for this pubkey'' \<and>
         filter isSign (trace (handleCloneEvents L s)) = [] \<and>
         filter isPublish (trace (handleCloneEvents L s)) = [] \<and>
         trace (handleCloneEvents L s) =
           [Query (relays s) \<lparr>kinds = [1], authors = [ddata d], limit = 50\<rparr>,
            LogError (Error ''No events found for this pubkey'')] \<and>
         events (ui (handleCloneEvents L s)) = events s"
  by (simp add: empty_query_run [OF assms])

theorem C4_empty_query_fails_witness:
  "querySync demoLib (relays emptyAuthorState)
     \<lparr>kinds = [1], authors = [KeyHex ''0000''], limit = 50\<rparr> = Inr [] \<and>
   error (ui (handleCloneEvents demoLib emptyAuthorState)) = Some ''No events found for this pubkey'' \<and>
   filter isPublish (trace (handleCloneEvents demoLib emptyAuthorState)) = [] \<and>
   events (ui (handleCloneEvents demoLib emptyAuthorState)) = [oldClone]"
proof -
  have h1: "startsWith (npub emptyAuthorState) ''npub1''"
    by (simp add: emptyAuthorState_def demoState_def startsWith_def)
  have h2: "nip19_decode demoLib (npub emptyAuthorState) = Inr \<lparr>dtype = ''npub'', ddata = KeyHex ''0000''\<rparr>"
    by (simp add: emptyAuthorState_def demoState_def demoLib_def demoDecode_def)
  have h3: "dtype \<lparr>dtype = ''npub'', ddata = KeyHex ''0000''\<rparr> = ''npub''" by simp
  have h4: "querySync demoLib (relays emptyAuthorState)
      \<lparr>kinds = [1], authors = [ddata \<lparr>dtype = ''npub'', ddata = KeyHex ''0000''\<rparr>], limit = 50\<rparr> = Inr []"
    by (simp add: emptyAuthorState_def demoState_def demoLib_def demoQuery_def)
  show ?thesis
    using C4_empty_query_fails [OF h1 h2 h3 h4] h4
    by (simp add: emptyAuthorState_def demoState_def)
qed



text \<open>
  C6. When the destination secret key is left empty and the query returns at least
  one event, the run ends after the query: the query is its only effect (no key is
  derived, nothing is signed, nothing is published), no error is set, and the list
  of cloned events is the one from before.
\<close>

theorem C6_no_destination_key_is_a_no_op:
  assumes "startsWith (npub s) ''npub1''" and "nip19_decode L (npub s) = Inr d"
    and "dtype d = ''npub''"
    and "querySync L (relays s) \<lparr>kinds = [1], authors = [ddata d], limit = 50\<rparr> = Inr evs"
    and "evs \<noteq> []" and "nsec s = []"
  shows "error (ui (handleCloneEvents L s)) = None \<and>
         trace (handleCloneEvents L s) =
           [Query (relays s) \<lparr>kinds = [1], authors = [ddata d], limit = 50\<rparr>] \<and>
         filter isSign (trace (handleCloneEvents L s)) = [] \<and>
         filter isPublish (trace (handleCloneEvents L s)) = [] \<and>
         events (ui (handleCloneEvents L s)) = events s \<and>
         status (ui (handleCloneEvents L s)) =
           ''Found '' @ toString (length evs) @ '' events to clone...''"
  by (simp add: no_dest_run [OF assms])

theorem C6_no_destination_key_is_a_no_op_witness:
  "nsec noDestState = [] \<and>
   error (ui (handleCloneEvents demoLib noDestState)) = None \<and>
   trace (handleCloneEvents demoLib noDestState) =
     [Query [''wss://bad'', ''wss://good''] \<lparr>kinds = [1], authors = [KeyHex ''a11ce''], limit = 50\<rparr>] \<and>
   events (ui (handleCloneEvents demoLib noDestState)) = [oldClone] \<and>
   status (ui (handleCloneEvents demoLib noDestState)) = ''Found 2 events to clone...''"
proof -
  have h1: "startsWith (npub noDestState) ''npub1''"
    by (simp add: noDestState_def demoState_def startsWith_def)
  have h2: "nip19_decode demoLib (npub noDestState) = Inr \<lparr>dtype = ''npub'', ddata = KeyHex ''a11ce''\<rparr>"
    by (simp add: noDestState_def demoState_def demoLib_def demoDecode_def)
  have h3: "dtype \<lparr>dtype = ''npub'', ddata = KeyHex ''a11ce''\<rparr> = ''npub''" by simp
  have h4: "querySync demoLib (relays noDestState)
      \<lparr>kinds = [1], authors = [ddata \<lparr>dtype = ''npub'', ddata = KeyHex ''a11ce''\<rparr>], limit = 50\<rparr> =
      Inr [note1, note2]"
    by (simp add: demoLib_def demoQuery_def)
  have h5: "[note1, note2] \<noteq> []" by simp
  have h6: "nsec noDestState = []" by (simp add: noDestState_def)
  show ?thesis
    using C6_no_destination_key_is_a_no_op [OF h1 h2 h3 h4 h5 h6] h6
    by (simp add: noDestState_def demoState_def)
qed

text \<open>
  C7, as the spec has it, fails: a string that decodes to another key category,
  such as a secret key pasted into the field of the public key, does not start
  with \<open>npub1\<close> and so is rejected by the check of the prefix, with the message of
  the format error and not with the one of the wrong key type.
\<close>

theorem C7_other_category_gets_format_error:
  "nip19_decode demoLib (npub pastedSecretState) =
     Inr \<lparr>dtype = ''nsec'', ddata = KeyBytes [1, 2, 3]\<rparr> \<and>
   error (ui (handleCloneEvents demoLib pastedSecretState)) =
     Some ''Invalid npub format. Must start with npub1'' \<and>
   error (ui (handleCloneEvents demoLib pastedSecretState)) \<noteq> Some ''Invalid npub''"
  by (simp add: handleCloneEvents_def tryBody_def demoLib_def demoState_def
      pastedSecretState_def startsWith_def demoDecode_def errorMessage_def emit_def)

text \<open>
  C7, amended. A source key that does not start with \<open>npub1\<close> fails with
  \<open>Invalid npub format. Must start with npub1\<close>, whatever it would decode to; a
  source key that starts with \<open>npub1\<close> and decodes to another key category fails
  with \<open>Invalid npub\<close>. In both cases the \<open>console.error\<close> call is the only effect
  of the run (no query, no publish) and the list of cloned events is the one from
  before.
\<close>

theorem C7_source_key_rejected:
  "(\<not> startsWith (npub s) ''npub1'' \<longrightarrow>
      error (ui (handleCloneEvents L s)) = Some ''Invalid npub format. Must start with npub1'' \<and>
      trace (handleCloneEvents L s) =
        [LogError (Error ''Invalid npub format. Must start with npub1'')] \<and>
      events (ui (handleCloneEvents L s)) = events s) \<and>
   (startsWith (npub s) ''npub1'' \<and> nip19_decode L (npub s) = Inr d \<and> dtype d \<noteq> ''npub'' \<longrightarrow>
      error (ui (handleCloneEvents L s)) = Some ''Invalid npub'' \<and>
      trace (handleCloneEvents L s) = [LogError (Error ''Invalid npub'')] \<and>
      events (ui (handleCloneEvents L s)) = events s)"
  by (simp add: source_fail_prefix source_fail_type)

theorem C7_source_key_rejected_witness:
  "\<not> startsWith (npub pastedSecretState) ''npub1'' \<and>
   trace (handleCloneEvents demoLib pastedSecretState) =
     [LogError (Error ''Invalid npub format. Must start with npub1'')] \<and>
   startsWith (npub oddSourceState) ''npub1'' \<and>
   nip19_decode demoLib (npub oddSourceState) = Inr \<lparr>dtype = ''note'', ddata = KeyHex ''0dd''\<rparr> \<and>
   error (ui (handleCloneEvents demoLib oddSourceState)) = Some ''Invalid npub'' \<and>
   trace (handleCloneEvents demoLib oddSourceState) = [LogError (Error ''Invalid npub'')]"
proof -
  have a: "\<not> startsWith (npub pastedSecretState) ''npub1''"
    by (simp add: pastedSecretState_def startsWith_def)
  have b1: "startsWith (npub oddSourceState) ''npub1''"
    by (simp add: oddSourceState_def startsWith_def)
  have b2: "nip19_decode demoLib (npub oddSourceState) = Inr \<lparr>dtype = ''note'', ddata = KeyHex ''0dd''\<rparr>"
    by (simp add: oddSourceState_def demoLib_def demoDecode_def)
  have b3: "dtype \<lparr>dtype = ''note'', ddata = KeyHex ''0dd''\<rparr> \<noteq> ''npub''" by simp
  show ?thesis
    using a b1 b2 b3
      C7_source_key_rejected [of pastedSecretState demoLib "\<lparr>dtype = ''nsec'', ddata = KeyBytes [1, 2, 3]\<rparr>"]
      C7_source_key_rejected [of oddSourceState demoLib "\<lparr>dtype = ''note'', ddata = KeyHex ''0dd''\<rparr>"]
    by simp
qed

text \<open>
  C8. A run that gets to the end sets the list of cloned events to the signed
  results, one per fetched event, and the status to \<open>Complete!\<close>, with no error.
  What the relays answered to the publish attempts has no influence on the cells
  of the component: with any other behaviour \<open>p\<close> of the relays the run ends in
  the same cells.
\<close>

theorem C8_done_surfaces_all_clones:
  assumes "startsWith (npub s) ''npub1''" and "nip19_decode L (npub s) = Inr d"
    and "dtype d = ''npub''"
    and "querySync L (relays s) \<lparr>kinds = [1], authors = [ddata d], limit = 50\<rparr> = Inr evs"
    and "evs \<noteq> []"
    and "nsec s \<noteq> []" and "startsWith (nsec s) ''nsec1''"
    and "nip19_decode L (nsec s) = Inr dn" and "dtype dn = ''nsec''"
    and "getPublicKey L (ddata dn) = Inr pk"
    and "length cs = length evs"
    and "\<forall>j<length evs.
           finalizeEvent L (newEvent pk (date_now L j) (evs ! j)) (ddata dn) = Inr (cs ! j)"
  shows "events (ui (handleCloneEvents L s)) = cs \<and> length cs = length evs \<and>
         status (ui (handleCloneEvents L s)) = ''Complete!'' \<and>
         error (ui (handleCloneEvents L s)) = None \<and>
         (\<forall>p. ui (handleCloneEvents (L\<lparr>publish := p\<rparr>) s) = ui (handleCloneEvents L s))"
proof -
  note run = done_run [OF assms]
  have other: "ui (handleCloneEvents (L\<lparr>publish := p\<rparr>) s) = ui (handleCloneEvents L s)" for p
  proof -
    have "ui (handleCloneEvents (L\<lparr>publish := p\<rparr>) s) =
        s\<lparr>events := cs, isModalOpen := False, isLoading := False, error := None,
          status := ''Complete!''\<rparr>"
      using assms by (subst done_run [where L = "L\<lparr>publish := p\<rparr>" and d = d and evs = evs
            and dn = dn and pk = pk and cs = cs]) simp_all
    then show ?thesis by (simp add: run)
  qed
  show ?thesis using other assms(11) by (simp add: run)
qed

theorem C8_done_surfaces_all_clones_witness:
  "events (ui (handleCloneEvents demoLib demoState)) = [clone1, clone2] \<and>
   length [clone1, clone2] = length [note1, note2] \<and>
   status (ui (handleCloneEvents demoLib demoState)) = ''Complete!'' \<and>
   error (ui (handleCloneEvents demoLib demoState)) = None \<and>
   ui (handleCloneEvents (demoLib\<lparr>publish := (\<lambda>relay c. Inr [Inr ''ok''])\<rparr>) demoState) =
     ui (handleCloneEvents demoLib demoState)"
proof -
  note T = C8_done_surfaces_all_clones [OF demo_source demo_query demo_dest demo_signed]
  from T have "ui (handleCloneEvents (demoLib\<lparr>publish := (\<lambda>relay c. Inr [Inr ''ok''])\<rparr>) demoState) =
     ui (handleCloneEvents demoLib demoState)"
    by blast
  then show ?thesis using T by blast
qed

text \<open>
  C9. Every relay query of a run goes to the configured relays with the filter
  \<open>kinds = [1]\<close> (the text-note kind), \<open>authors\<close> the one decoded source key and
  \<open>limit = 50\<close>; and a run whose source key passes the two checks issues exactly
  one such query.
\<close>

theorem C9_query_filter:
  "(\<forall>e\<in>set (trace (handleCloneEvents L s)). isQuery e \<longrightarrow>
      (\<exists>d. nip19_decode L (npub s) = Inr d \<and>
           e = Query (relays s) \<lparr>kinds = [1], authors = [ddata d], limit = 50\<rparr>)) \<and>
   (startsWith (npub s) ''npub1'' \<and> nip19_decode L (npub s) = Inr d' \<and> dtype d' = ''npub'' \<longrightarrow>
      filter isQuery (trace (handleCloneEvents L s)) =
        [Query (relays s) \<lparr>kinds = [1], authors = [ddata d'], limit = 50\<rparr>])"
proof (intro conjI ballI impI)
  fix e
  assume "e \<in> set (trace (handleCloneEvents L s))" and "isQuery e"
  then have "e \<in> set (filter isQuery (trace (handleCloneEvents L s)))" by simp
  then have "e \<in> set (if startsWith (npub s) ''npub1'' then
        (case nip19_decode L (npub s) of
           Inl err \<Rightarrow> []
         | Inr d \<Rightarrow> if dtype d = ''npub''
                    then [Query (relays s) \<lparr>kinds = [1], authors = [ddata d], limit = 50\<rparr>]
                    else [])
      else [])"
    unfolding run_queries .
  then show "\<exists>d. nip19_decode L (npub s) = Inr d \<and>
           e = Query (relays s) \<lparr>kinds = [1], authors = [ddata d], limit = 50\<rparr>"
    by (rule member_of_queries)
next
  assume "startsWith (npub s) ''npub1'' \<and> nip19_decode L (npub s) = Inr d' \<and> dtype d' = ''npub''"
  then show "filter isQuery (trace (handleCloneEvents L s)) =
        [Query (relays s) \<lparr>kinds = [1], authors = [ddata d'], limit = 50\<rparr>]"
    by (simp add: run_queries)
qed

theorem C9_query_filter_witness:
  "startsWith (npub demoState) ''npub1'' \<and>
   nip19_decode demoLib (npub demoState) = Inr \<lparr>dtype = ''npub'', ddata = KeyHex ''a11ce''\<rparr> \<and>
   filter isQuery (trace (handleCloneEvents demoLib demoState)) =
     [Query [''wss://bad'', ''wss://good''] \<lparr>kinds = [1], authors = [KeyHex ''a11ce''], limit = 50\<rparr>] \<and>
   Query [''wss://bad'', ''wss://good''] \<lparr>kinds = [1], authors = [KeyHex ''a11ce''], limit = 50\<rparr>
     \<in> set (trace (handleCloneEvents demoLib demoState))"
proof -
  have q: "filter isQuery (trace (handleCloneEvents demoLib demoState)) =
     [Query (relays demoState)
        \<lparr>kinds = [1], authors = [ddata \<lparr>dtype = ''npub'', ddata = KeyHex ''a11ce''\<rparr>], limit = 50\<rparr>]"
    using C9_query_filter [of demoLib demoState "\<lparr>dtype = ''npub'', ddata = KeyHex ''a11ce''\<rparr>"]
      demo_source by simp
  have "Query [''wss://bad'', ''wss://good''] \<lparr>kinds = [1], authors = [KeyHex ''a11ce''], limit = 50\<rparr>
     \<in> set (filter isQuery (trace (handleCloneEvents demoLib demoState)))"
    by (simp only: q) (simp add: demoState_def)
  then show ?thesis using q demo_source by (simp add: demoState_def)
qed

text \<open>
  C10. A run that ends with an error message leaves the list of cloned events as
  it was before the run; of the cells of the component it has written only the
  error message, the status line and the two flags \<open>isLoading\<close> and \<open>isModalOpen\<close>
  that every run resets.
\<close>

theorem C10_failed_run_keeps_events:
  assumes "error (ui (handleCloneEvents L s)) \<noteq> None"
  shows "events (ui (handleCloneEvents L s)) = events s \<and>
         (\<exists>msg m. ui (handleCloneEvents L s) =
            s\<lparr>isModalOpen := False, isLoading := False, error := Some msg, status := m\<rparr>)"
proof -
  obtain err where u: "ui (handleCloneEvents L s) =
     s\<lparr>isModalOpen := False, isLoading := False, error := Some (errorMessage err),
       status := status (ui (handleCloneEvents L s))\<rparr>"
    using failed_run [OF assms] by blast
  have "events (ui (handleCloneEvents L s)) = events s"
    by (subst u) simp
  then show ?thesis using u by blast
qed

theorem C10_failed_run_keeps_events_witness:
  "error (ui (handleCloneEvents demoLib badDestState)) \<noteq> None \<and>
   events badDestState = [oldClone] \<and>
   events (ui (handleCloneEvents demoLib badDestState)) = [oldClone]"
proof -
  have e: "error (ui (handleCloneEvents demoLib badDestState)) =
      Some ''Invalid nsec format. Must start with nsec1''"
    by (simp add: handleCloneEvents_def tryBody_def cloneAndPublish_def demoLib_def demoState_def
      badDestState_def startsWith_def demoDecode_def demoQuery_def errorMessage_def
      setStatus_def emit_def Let_def)
  then have h: "error (ui (handleCloneEvents demoLib badDestState)) \<noteq> None" by simp
  show ?thesis
    using C10_failed_run_keeps_events [OF h] h by (simp add: badDestState_def demoState_def)
qed

end
